theory Spec2Isabelle
  imports Main "HOL-Library.AList"
begin

section \<open>Values shared by the components\<close>

text \<open>
  Python \<open>str\<close> is \<open>string\<close>, \<open>bytes\<close> is a list of \<open>char\<close> (a HOL character is one
  byte), Python \<open>int\<close> is \<open>int\<close> or \<open>nat\<close>. The decimal renderings below are what
  \<open>str(n)\<close>, \<open>%0kd\<close> and \<open>{x:.4f}\<close> print.
\<close>

definition digit :: "nat \<Rightarrow> char" where
  "digit n = ''0123456789'' ! (n mod 10)"

fun show_nat :: "nat \<Rightarrow> string" where
  "show_nat n = (if n < 10 then [digit n] else show_nat (n div 10) @ [digit (n mod 10)])"

definition show_int :: "int \<Rightarrow> string" where
  "show_int i = (if i < 0 then CHR ''-'' # show_nat (nat (- i)) else show_nat (nat i))"

definition zfill :: "nat \<Rightarrow> string \<Rightarrow> string" where
  "zfill k s = replicate (k - length s) CHR ''0'' @ s"

definition round_half_even :: "nat \<Rightarrow> nat \<Rightarrow> nat" where
  "round_half_even n d =
     (let q = n div d; r = n mod d
      in if 2 * r < d then q
         else if d < 2 * r then q + 1
         else if even q then q else q + 1)"

text \<open>
  \<open>f"{process_time:.4f}"\<close>. A clock reading is a whole number of nanoseconds, so a
  duration is an \<open>int\<close> of nanoseconds and the four decimals count units of 100
  microseconds; binary floating-point rounding is not part of the model.
\<close>

definition fmt_4f :: "int \<Rightarrow> string" where
  "fmt_4f ns =
     (let q = round_half_even (nat \<bar>ns\<bar>) 100000
      in (if ns < 0 then ''-'' else []) @ show_nat (q div 10000) @ ''.'' @
         zfill 4 (show_nat (q mod 10000)))"

definition hexdigit :: "nat \<Rightarrow> char" where
  "hexdigit n = ''0123456789abcdef'' ! (n mod 16)"

text \<open>\<open>binascii.hexlify(b).decode('ascii')\<close>: two lower-case hex digits per byte.\<close>

definition hexlify :: "char list \<Rightarrow> string" where
  "hexlify bs = concat (map (\<lambda>b. [hexdigit (of_char b div 16), hexdigit (of_char b mod 16)]) bs)"

text \<open>\<open>str.lower()\<close> on ASCII text.\<close>

definition lower_char :: "char \<Rightarrow> char" where
  "lower_char c =
     (case map_of (zip ''ABCDEFGHIJKLMNOPQRSTUVWXYZ'' ''abcdefghijklmnopqrstuvwxyz'') c of
        Some l \<Rightarrow> l
      | None \<Rightarrow> c)"

definition lower :: "string \<Rightarrow> string" where
  "lower s = map lower_char s"

datatype json =
    JNull
  | JBool bool
  | JInt int
  | JStr string
  | JArr "json list"
  | JObj "(string \<times> json) list"

text \<open>
  The exceptions that travel through the request path. \<open>HTTPException\<close> carries its
  status code and its \<open>detail\<close>; every \<open>detail\<close> the repository raises is a string.
  \<open>PyError t m\<close> is any other exception, of type name \<open>t\<close> and message \<open>m\<close>.
\<close>

datatype exc =
    HTTPException nat string
  | DefaultCredentialsError string
  | PyError string string

text \<open>\<open>str(e)\<close> and \<open>type(e).__name__\<close>.\<close>

fun exc_str :: "exc \<Rightarrow> string" where
  "exc_str (HTTPException s d) = show_nat s @ '': '' @ d"
| "exc_str (DefaultCredentialsError m) = m"
| "exc_str (PyError t m) = m"

fun exc_type_name :: "exc \<Rightarrow> string" where
  "exc_type_name (HTTPException s d) = ''HTTPException''"
| "exc_type_name (DefaultCredentialsError m) = ''DefaultCredentialsError''"
| "exc_type_name (PyError t m) = t"

record response =
  status_code :: nat
  body :: "json option"
  headers :: "(string \<times> string) list"

text \<open>\<open>response.headers[k] = v\<close>: replaces the header when present, appends it otherwise.\<close>

definition set_header :: "string \<Rightarrow> string \<Rightarrow> response \<Rightarrow> response" where
  "set_header k v r = r\<lparr>headers := AList.update k v (headers r)\<rparr>"

definition JSONResponse :: "nat \<Rightarrow> json \<Rightarrow> response" where
  "JSONResponse s c = \<lparr>status_code = s, body = Some c, headers = []\<rparr>"

section \<open>Settings (app/core/config.py)\<close>

record settings =
  PROJECT_NAME :: string
  ENVIRONMENT :: string
  LOG_LEVEL :: string
  API_V1_STR :: string
  DEBUG :: bool
  GCS_BUCKET_NAME :: string
  GCP_PROJECT :: "string option"

text \<open>
  The settings classes of config.py. \<open>declared\<close> gives the field defaults written in the
  class bodies, a field a class does not declare being inherited from
  \<open>BaseAppSettings\<close>.
\<close>

datatype settings_class =
    BootstrapSettings
  | LocalSettings
  | DevelopmentSettings
  | TestSettings
  | StagingSettings
  | ProductionSettings

definition BaseAppSettings :: settings where
  "BaseAppSettings =
     \<lparr>PROJECT_NAME = ''Abacus Signed URL Generator'', ENVIRONMENT = ''local'',
      LOG_LEVEL = ''INFO'', API_V1_STR = ''/v1'', DEBUG = False,
      GCS_BUCKET_NAME = ''abacus-claims'', GCP_PROJECT = None\<rparr>"

fun declared :: "settings_class \<Rightarrow> settings" where
  "declared BootstrapSettings = BaseAppSettings\<lparr>GCP_PROJECT := None\<rparr>"
| "declared LocalSettings =
     BaseAppSettings\<lparr>ENVIRONMENT := ''local'', GCP_PROJECT := Some ''grpit-cds-sandpit-dev'',
                      LOG_LEVEL := ''DEBUG'', DEBUG := True, GCS_BUCKET_NAME := ''abacus-claims''\<rparr>"
| "declared DevelopmentSettings =
     BaseAppSettings\<lparr>ENVIRONMENT := ''development'', GCP_PROJECT := Some '''',
                      LOG_LEVEL := ''INFO'', DEBUG := False,
                      GCS_BUCKET_NAME := ''abacus-claims-dev''\<rparr>"
| "declared TestSettings =
     BaseAppSettings\<lparr>ENVIRONMENT := ''test'', GCP_PROJECT := Some '''',
                      LOG_LEVEL := ''WARNING'', DEBUG := False, GCS_BUCKET_NAME := ''''\<rparr>"
| "declared StagingSettings =
     BaseAppSettings\<lparr>ENVIRONMENT := ''staging'', GCP_PROJECT := Some '''',
                      LOG_LEVEL := ''INFO'', DEBUG := False, GCS_BUCKET_NAME := ''''\<rparr>"
| "declared ProductionSettings =
     BaseAppSettings\<lparr>ENVIRONMENT := ''production'', GCP_PROJECT := Some '''',
                      LOG_LEVEL := ''WARNING'', DEBUG := False, GCS_BUCKET_NAME := ''''\<rparr>"


text \<open>
  \<open>os.environ\<close>, in insertion order: \<open>os.environ.get(k)\<close> and \<open>os.environ[k] = v\<close>.
\<close>

type_synonym environ = "(string \<times> string) list"

definition environ_get :: "environ \<Rightarrow> string \<Rightarrow> string option" where
  "environ_get env k = map_of env k"

definition environ_set :: "string \<Rightarrow> string \<Rightarrow> environ \<Rightarrow> environ" where
  "environ_set k v env = AList.update k v env"

text \<open>
  \<open>load_dotenv\<close> over the bindings of the file it reads (\<open>None\<close>: there is no file):
  a binding without a value is skipped, and a variable that is already set is kept
  unless \<open>override\<close>.
\<close>

type_synonym dotenv = "(string \<times> string option) list"

definition load_dotenv :: "dotenv option \<Rightarrow> bool \<Rightarrow> environ \<Rightarrow> environ" where
  "load_dotenv file override env =
     (case file of
        None \<Rightarrow> env
      | Some bindings \<Rightarrow>
          fold (\<lambda>(k, v) e.
                  if environ_get e k \<noteq> None \<and> \<not> override then e
                  else (case v of None \<Rightarrow> e | Some s \<Rightarrow> environ_set k s e))
               bindings env)"

text \<open>
  The files the resolution reads: the \<open>.env\<close> that \<open>load_dotenv()\<close> finds, and the file
  of a given path when \<open>os.path.exists\<close> holds for it.
\<close>

record filesystem =
  dotenv_found :: "dotenv option"
  env_file :: "string \<Rightarrow> dotenv option"

text \<open>Lines 104 to 108 of \<open>get_setings\<close> (and 87 to 91 of \<open>get_bootstrap_settings\<close>).\<close>

definition load_env_files :: "filesystem \<Rightarrow> environ \<Rightarrow> environ" where
  "load_env_files fs env0 =
     (let env1 = load_dotenv (dotenv_found fs) False env0;
          env_file_path =
            ''.env.'' @ lower (case environ_get env1 ''ENVIRONMENT'' of None \<Rightarrow> ''local'' | Some v \<Rightarrow> v)
      in case env_file fs env_file_path of
           None \<Rightarrow> env1
         | Some bindings \<Rightarrow> load_dotenv (Some bindings) True env1)"



text \<open>
  Instantiating a settings class is the work of the settings library, under the
  \<open>model_config\<close> of \<open>BaseAppSettings\<close> (\<open>case_sensitive=False\<close>): a field takes the value
  of the environment variable whose name equals the field's name up to letter case (the
  last one in \<open>os.environ\<close> when several do), and the default declared in the class body
  when there is none. The defaults are those the class was created with: an attribute
  assigned to the class object afterwards is no field default, and an instance keeps its
  own field values. A string field takes any value; the boolean field \<open>DEBUG\<close> takes the
  literals below, in any letter case, and any other value fails the validation.
\<close>

definition env_value :: "environ \<Rightarrow> string \<Rightarrow> string option" where
  "env_value env field =
     (case filter (\<lambda>(k, v). lower k = lower field) env of
        [] \<Rightarrow> None
      | kv # kvs \<Rightarrow> Some (snd (last (kv # kvs))))"

definition parse_bool :: "string \<Rightarrow> bool option" where
  "parse_bool s =
     (if lower s \<in> set [''1'', ''on'', ''t'', ''true'', ''y'', ''yes''] then Some True
      else if lower s \<in> set [''0'', ''off'', ''f'', ''false'', ''n'', ''no''] then Some False
      else None)"

definition str_field :: "environ \<Rightarrow> string \<Rightarrow> string \<Rightarrow> string" where
  "str_field env field dflt = (case env_value env field of None \<Rightarrow> dflt | Some v \<Rightarrow> v)"

definition instantiate :: "settings_class \<Rightarrow> environ \<Rightarrow> exc + settings" where
  "instantiate cls env =
     (let d = declared cls
      in case (case env_value env ''DEBUG'' of None \<Rightarrow> Some (DEBUG d) | Some v \<Rightarrow> parse_bool v) of
           None \<Rightarrow> Inl (PyError ''ValidationError'' ''DEBUG'')
         | Some debug \<Rightarrow>
             Inr \<lparr>PROJECT_NAME = str_field env ''PROJECT_NAME'' (PROJECT_NAME d),
                  ENVIRONMENT = str_field env ''ENVIRONMENT'' (ENVIRONMENT d),
                  LOG_LEVEL = str_field env ''LOG_LEVEL'' (LOG_LEVEL d),
                  API_V1_STR = str_field env ''API_V1_STR'' (API_V1_STR d),
                  DEBUG = debug,
                  GCS_BUCKET_NAME = str_field env ''GCS_BUCKET_NAME'' (GCS_BUCKET_NAME d),
                  GCP_PROJECT =
                    (case env_value env ''GCP_PROJECT'' of
                       None \<Rightarrow> GCP_PROJECT d
                     | Some v \<Rightarrow> Some v)\<rparr>)"

text \<open>
  The state of the module: \<open>os.environ\<close>, the global \<open>_settings_instance\<close>, and the
  attribute \<open>GCP_PROJECT\<close> of each class object as \<open>get_setings\<close> assigns it (\<open>None\<close>:
  never assigned).
\<close>

record process =
  os_environ :: environ
  settings_instance :: "settings option"
  class_GCP_PROJECT :: "settings_class \<Rightarrow> string option option"



definition get_bootstrap_settings :: "filesystem \<Rightarrow> process \<Rightarrow> (exc + settings) \<times> process" where
  "get_bootstrap_settings fs p =
     (let env = load_env_files fs (os_environ p)
      in (instantiate BootstrapSettings env, p\<lparr>os_environ := env\<rparr>))"

section \<open>The cloud SDK as seen by the handler\<close>

text \<open>
  The credentials object: \<open>cred_type\<close> is what \<open>type(credentials)\<close> prints,
  \<open>is_compute_engine\<close> is \<open>isinstance(credentials, ComputeEngineCredentials)\<close>, an
  attribute that may be missing or \<open>None\<close> is an \<open>attr\<close>.
\<close>

datatype attr = Absent | NoneVal | StrVal string

record credentials =
  cred_type :: string
  is_compute_engine :: bool
  service_account_email :: attr
  token :: "string option"
  valid :: bool

record sign_request =
  sr_blob :: string
  sr_version :: string
  sr_expiration :: int
  sr_method :: string
  sr_service_account_email :: string
  sr_access_token :: "string option"
  sr_response_disposition :: string

text \<open>
  What the SDK raises is an \<open>sdk_exc\<close>: the SDK has no way to raise the web framework's
  \<open>HTTPException\<close>.
\<close>

datatype sdk_exc = SdkDefaultCredentialsError string | SdkError string string

fun raised :: "sdk_exc \<Rightarrow> exc" where
  "raised (SdkDefaultCredentialsError m) = DefaultCredentialsError m"
| "raised (SdkError t m) = PyError t m"

text \<open>
  The storage client of \<open>gcs_service\<close>: the existence check of a blob of a bucket and the
  signing of a URL, each returning or raising.
\<close>

record gcs_client =
  blob_exists :: "string \<Rightarrow> string \<Rightarrow> sdk_exc + bool"
  blob_generate_signed_url :: "string \<Rightarrow> sign_request \<Rightarrow> sdk_exc + string"

text \<open>
  The outcome of each SDK call of one request: \<open>google.auth.default\<close> returns the
  credentials and the project id, \<open>credentials.refresh\<close> returns the refreshed
  credentials object. \<open>storage_client\<close> is \<open>GCSClient._client\<close>, \<open>None\<close> when its
  initialisation failed at import time.
\<close>

record cloud =
  adc_default :: "sdk_exc + credentials \<times> string option"
  refresh :: "credentials \<Rightarrow> sdk_exc + credentials"
  storage_client :: "gcs_client option"

datatype cloud_op =
    OpDefault
  | OpRefresh
  | OpExists string string
  | OpSign string sign_request

section \<open>Process state\<close>

text \<open>The two \<open>ContextVar\<close>s of app/utils/logging_config.py, default \<open>None\<close>.\<close>

record trace_context =
  trace_id_var :: "string option"
  span_id_var :: "string option"

record log_call =
  levelname :: string
  message :: string
  exc_info :: "exc option"

text \<open>
  What a request can read and change: the ambient context, the log sink, the settings
  singleton, and the SDK calls made so far (most recent last).
\<close>

record world =
  ctx :: trace_context
  logs :: "log_call list"
  app_settings :: settings
  cloud_calls :: "cloud_op list"

definition log_msg :: "string \<Rightarrow> string \<Rightarrow> world \<Rightarrow> world" where
  "log_msg lvl m w = w\<lparr>logs := logs w @ [\<lparr>levelname = lvl, message = m, exc_info = None\<rparr>]\<rparr>"

text \<open>\<open>logger.exception(m)\<close> and \<open>logger.error(m, exc_info=True)\<close> inside an \<open>except\<close> block.\<close>

definition log_exc :: "string \<Rightarrow> string \<Rightarrow> exc \<Rightarrow> world \<Rightarrow> world" where
  "log_exc lvl m e w = w\<lparr>logs := logs w @ [\<lparr>levelname = lvl, message = m, exc_info = Some e\<rparr>]\<rparr>"

definition called :: "cloud_op \<Rightarrow> world \<Rightarrow> world" where
  "called op w = w\<lparr>cloud_calls := cloud_calls w @ [op]\<rparr>"

section \<open>Structured log formatter (app/utils/logging_config.py)\<close>

text \<open>
  A \<open>logging.LogRecord\<close>: the level, message and exception of the call that made it,
  with the fields the formatter reads. \<open>created\<close> is the creation time in whole
  microseconds since the epoch (the resolution of \<open>datetime\<close>); \<open>traceback\<close> is the
  text \<open>formatException\<close> prints above the line of the exception.
\<close>

record LogRecord = log_call +
  name :: string
  created :: int
  pathname :: string
  lineno :: int
  funcName :: string
  traceback :: string
  stack_info :: "string option"

record datetime =
  year :: int
  month :: int
  day :: int
  hour :: int
  minute :: int
  second :: int
  microsecond :: int

text \<open>
  The date of the proleptic Gregorian calendar of a day counted from 1970-01-01, as
  (year, month, day).
\<close>

definition civil_from_days :: "int \<Rightarrow> int \<times> int \<times> int" where
  "civil_from_days days =
     (let z = days + 719468;
          era = z div 146097;
          doe = z mod 146097;
          yoe = (doe - doe div 1460 + doe div 36524 - doe div 146096) div 365;
          doy = doe - (365 * yoe + yoe div 4 - yoe div 100);
          mp = (5 * doy + 2) div 153;
          d = doy - (153 * mp + 2) div 5 + 1;
          m = (if mp < 10 then mp + 3 else mp - 9);
          y = yoe + era * 400 + (if m \<le> 2 then 1 else 0)
      in (y, m, d))"

text \<open>
  \<open>datetime.fromtimestamp(t)\<close> without a time zone argument: the naive local time of
  the process, that is UTC shifted by the offset of the local zone (\<open>utcoffset\<close>, in
  seconds east of UTC). A year outside 1 to 9999 raises.
\<close>

definition fromtimestamp :: "int \<Rightarrow> int \<Rightarrow> exc + datetime" where
  "fromtimestamp utcoffset t =
     (let local_us = t + utcoffset * 1000000;
          rest = local_us mod 86400000000;
          (y, m, d) = civil_from_days (local_us div 86400000000)
      in if y < 1 \<or> 9999 < y then Inl (PyError ''ValueError'' ''year out of range'')
         else Inr \<lparr>year = y, month = m, day = d,
                   hour = rest div 3600000000,
                   minute = rest div 60000000 mod 60,
                   second = rest div 1000000 mod 60,
                   microsecond = rest mod 1000000\<rparr>)"

text \<open>\<open>dt.isoformat(timespec='milliseconds')\<close> of a naive datetime.\<close>

definition isoformat_milliseconds :: "datetime \<Rightarrow> string" where
  "isoformat_milliseconds dt =
     zfill 4 (show_int (year dt)) @ ''-'' @ zfill 2 (show_int (month dt)) @ ''-'' @
     zfill 2 (show_int (day dt)) @ ''T'' @ zfill 2 (show_int (hour dt)) @ '':'' @
     zfill 2 (show_int (minute dt)) @ '':'' @ zfill 2 (show_int (second dt)) @ ''.'' @
     zfill 3 (show_int (microsecond dt div 1000))"

definition severity_map :: "(string \<times> string) list" where
  "severity_map =
     [(''CRITICAL'', ''CRITICAL''), (''ERROR'', ''ERROR''), (''WARNING'', ''WARNING''),
      (''INFO'', ''INFO''), (''DEBUG'', ''DEBUG''), (''NOTSET'', ''DEFAULT'')]"

definition formatException :: "string \<Rightarrow> exc \<Rightarrow> string" where
  "formatException tb e = tb @ exc_type_name e @ '': '' @ exc_str e"

text \<open>
  \<open>StructuredLogFormatter.format\<close>: the dictionary \<open>log_entry\<close> that \<open>json.dumps\<close>
  serialises, for a formatter made with \<open>project_id\<close>, in a process whose local zone is
  \<open>utcoffset\<close> seconds east of UTC, under the ambient context \<open>c\<close>.
\<close>

definition format :: "string option \<Rightarrow> int \<Rightarrow> trace_context \<Rightarrow> LogRecord \<Rightarrow> exc + json" where
  "format project_id utcoffset c record =
     (let trace_id = trace_id_var c;
          span_id = span_id_var c;
          severity = (case map_of severity_map (levelname record) of
                        None \<Rightarrow> ''DEFAULT''
                      | Some s \<Rightarrow> s)
      in case fromtimestamp utcoffset (created record) of
           Inl e \<Rightarrow> Inl e
         | Inr dt \<Rightarrow>
             Inr (JObj
               ([(''severity'', JStr severity),
                 (''message'', JStr (message record)),
                 (''timestamp'', JStr (isoformat_milliseconds dt @ ''Z'')),
                 (''logging.googleapis.com/sourceLocation'',
                    JObj [(''file'', JStr (pathname record)), (''line'', JInt (lineno record)),
                          (''function'', JStr (funcName record))]),
                 (''logging.googleapis.com/labels'',
                    JObj [(''python_logger'', JStr (name record))])] @
                (case (trace_id, project_id) of
                   (Some t, Some p) \<Rightarrow>
                     if t \<noteq> [] \<and> p \<noteq> [] then
                       [(''logging.googleapis.com/trace'',
                         JStr (''projects/'' @ p @ ''/traces/'' @ t))]
                     else []
                 | _ \<Rightarrow> []) @
                (case span_id of
                   Some s \<Rightarrow> if s \<noteq> [] then [(''logging.googleapis.com/spanId'', JStr s)] else []
                 | None \<Rightarrow> []) @
                (case exc_info record of
                   Some e \<Rightarrow> [(''exception'', JStr (formatException (traceback record) e))]
                 | None \<Rightarrow> []) @
                (case stack_info record of
                   Some s \<Rightarrow> if s \<noteq> [] then [(''stack_trace'', JStr s)] else []
                 | None \<Rightarrow> []))))"

section \<open>Trace middleware (app/middleware/trace_middleware.py)\<close>

datatype qint = QMissing | QInvalid string | QInt int

record request =
  http_method :: string
  path :: string
  base_url :: string
  q_filename :: "string option"
  q_expires_in :: qint
  state_trace_id :: "string option"
  state_span_id :: "string option"

text \<open>
  The randomness and the clock one request consumes: \<open>str(uuid.uuid4())\<close>,
  \<open>os.urandom(8)\<close>, the \<open>time.perf_counter()\<close> reading at the start and the one taken
  when the downstream call has ended (in nanoseconds).
\<close>

record entropy =
  uuid4 :: string
  urandom8 :: "char list"

record clock =
  perf_start :: int
  perf_end :: int

type_synonym handler = "request \<Rightarrow> world \<Rightarrow> (exc + response) \<times> world"

text \<open>
  \<open>ContextVar.set\<close> returns a token that remembers the value before the call;
  \<open>ContextVar.reset(token)\<close> puts that value back.
\<close>

definition trace_id_var_set :: "string \<Rightarrow> world \<Rightarrow> string option \<times> world" where
  "trace_id_var_set v w = (trace_id_var (ctx w), w\<lparr>ctx := (ctx w)\<lparr>trace_id_var := Some v\<rparr>\<rparr>)"

definition span_id_var_set :: "string \<Rightarrow> world \<Rightarrow> string option \<times> world" where
  "span_id_var_set v w = (span_id_var (ctx w), w\<lparr>ctx := (ctx w)\<lparr>span_id_var := Some v\<rparr>\<rparr>)"

definition trace_id_var_reset :: "string option \<Rightarrow> world \<Rightarrow> world" where
  "trace_id_var_reset tok w = w\<lparr>ctx := (ctx w)\<lparr>trace_id_var := tok\<rparr>\<rparr>"

definition span_id_var_reset :: "string option \<Rightarrow> world \<Rightarrow> world" where
  "span_id_var_reset tok w = w\<lparr>ctx := (ctx w)\<lparr>span_id_var := tok\<rparr>\<rparr>"

text \<open>
  \<open>TraceMiddleware.dispatch\<close>. The \<open>except\<close> branch logs and re-raises; its \<open>finally\<close>
  block is \<open>pass\<close>, so the headers, the final log line and the two \<open>reset\<close> calls are
  reached only when \<open>call_next\<close> has returned a response.
\<close>

definition dispatch :: "entropy \<Rightarrow> clock \<Rightarrow> request \<Rightarrow> handler \<Rightarrow> world \<Rightarrow> (exc + response) \<times> world" where
  "dispatch rnd clk req call_next w0 =
     (let trace_id = uuid4 rnd;
          span_id = hexlify (urandom8 rnd);
          req1 = req\<lparr>state_trace_id := Some trace_id, state_span_id := Some span_id\<rparr>;
          (trace_token, w1) = trace_id_var_set trace_id w0;
          (span_token, w2) = span_id_var_set span_id w1;
          start_time = perf_start clk;
          w3 = log_msg ''INFO'' (''Request started: '' @ http_method req1 @ '' '' @ path req1) w2;
          w4 = log_msg ''INFO''
                 (''URL to be processed: '' @ path req1 @ '' and base path: '' @ base_url req1) w3
      in case call_next req1 w4 of
           (Inl e, w5) \<Rightarrow>
             (let process_time = perf_end clk - start_time;
                  w6 = log_exc ''ERROR''
                         (''Exception during request processing: '' @ exc_str e @ '' ('' @
                          fmt_4f process_time @ ''s)'') e w5
              in (Inl e, w6))
         | (Inr response0, w5) \<Rightarrow>
             (let process_time = perf_end clk - start_time;
                  response1 = set_header ''X-Process-Time'' (fmt_4f process_time) response0;
                  response2 = set_header ''X-Trace-ID'' trace_id response1;
                  response3 = set_header ''X-Span-ID'' span_id response2;
                  w6 = log_msg ''INFO''
                         (''Request finished: Status '' @ show_nat (status_code response3) @
                          '' ('' @ fmt_4f process_time @ ''s)'') w5;
                  w7 = trace_id_var_reset trace_token w6;
                  w8 = span_id_var_reset span_token w7
              in (Inr response3, w8)))"

text \<open>
  The request and the world that \<open>dispatch\<close> hands to \<open>call_next\<close>: the request with its
  \<open>state\<close> filled in, the world with both identifiers installed and the two opening
  log lines written.
\<close>

definition request_seen :: "entropy \<Rightarrow> request \<Rightarrow> request" where
  "request_seen rnd req =
     req\<lparr>state_trace_id := Some (uuid4 rnd), state_span_id := Some (hexlify (urandom8 rnd))\<rparr>"

definition world_seen :: "entropy \<Rightarrow> request \<Rightarrow> world \<Rightarrow> world" where
  "world_seen rnd req w =
     log_msg ''INFO''
       (''URL to be processed: '' @ path req @ '' and base path: '' @ base_url req)
       (log_msg ''INFO'' (''Request started: '' @ http_method req @ '' '' @ path req)
          (w\<lparr>ctx := (ctx w)\<lparr>trace_id_var := Some (uuid4 rnd),
                               span_id_var := Some (hexlify (urandom8 rnd))\<rparr>\<rparr>))"

section \<open>Signed-URL endpoint (app/api/endpoints/gcs_url_endpoint.py)\<close>

text \<open>The \<open>detail\<close> strings of the five \<open>HTTPException\<close>s the handler raises.\<close>

definition detail_invalid_credentials :: string where
  "detail_invalid_credentials =
     ''Invalid Google Cloud credentials. Please check your Cloud Run service account configuration and permissions.''"

definition detail_no_signing_identity :: string where
  "detail_no_signing_identity =
     ''Could not determine the service account identity for URL signing. Check Cloud Run service account configuration.''"

definition detail_file_not_found :: string where
  "detail_file_not_found = ''File not found in Google Cloud Storage.''"

definition detail_authentication_failed :: string where
  "detail_authentication_failed =
     ''Authentication to Google Cloud failed. Please check your Cloud Run service account permissions.''"

definition detail_internal_error :: string where
  "detail_internal_error =
     ''Internal server error: Could not generate signed URL. Please check server logs.''"

text \<open>How an f-string prints a value that may be \<open>None\<close>, and Python truthiness of one.\<close>

definition str_opt :: "string option \<Rightarrow> string" where
  "str_opt v = (case v of None \<Rightarrow> ''None'' | Some s \<Rightarrow> s)"

definition truthy :: "string option \<Rightarrow> bool" where
  "truthy v = (case v of None \<Rightarrow> False | Some s \<Rightarrow> s \<noteq> [])"

text \<open>
  Lines 37 to 67 of the \<open>try\<close> block: \<open>credentials, settings.GCP_PROJECT = default(scopes)\<close>
  stores the project id of the SDK in the settings singleton; four log lines; then, when
  the credentials are not valid, one \<open>credentials.refresh\<close> and a second look at
  \<open>credentials.valid\<close>.
\<close>

definition acquire_credentials :: "cloud \<Rightarrow> world \<Rightarrow> (exc + credentials) \<times> world" where
  "acquire_credentials cl w0 =
     (let w1 = called OpDefault w0
      in case adc_default cl of
           Inl x \<Rightarrow> (Inl (raised x), w1)
         | Inr (creds, project) \<Rightarrow>
             (let w2 = w1\<lparr>app_settings := (app_settings w1)\<lparr>GCP_PROJECT := project\<rparr>\<rparr>;
                  w3 = log_msg ''INFO'' (''Credentials object type: '' @ cred_type creds) w2;
                  sa_email_from_credentials =
                    (case service_account_email creds of
                       Absent \<Rightarrow> ''UNKNOWN_SERVICE_ACCOUNT_EMAIL''
                     | NoneVal \<Rightarrow> ''None''
                     | StrVal s \<Rightarrow> s);
                  w4 = log_msg ''INFO''
                         (''Credentials service_account_email (from object): '' @
                          sa_email_from_credentials) w3;
                  w5 = log_msg ''INFO''
                         (''Credentials token: '' @
                          (if truthy (token creds) then ''exists'' else ''does not exist'')) w4;
                  w6 = log_msg ''INFO''
                         (''Project ID from default(): '' @ str_opt (GCP_PROJECT (app_settings w5)))
                         w5
              in if \<not> valid creds then
                   (let w7 = log_msg ''ERROR''
                               ''Invalid Google Cloud credentials detected. Attempting refresh.'' w6;
                        w8 = called OpRefresh w7
                    in case refresh cl creds of
                         Inl x \<Rightarrow> (Inl (raised x), w8)
                       | Inr creds' \<Rightarrow>
                           if \<not> valid creds' then
                             (Inl (HTTPException 500 detail_invalid_credentials),
                              log_msg ''ERROR'' ''Credentials remain invalid after refresh.'' w8)
                           else (Inr creds', w8))
                 else (Inr creds, w6)))"

text \<open>
  Lines 71 to 84: the signing identity is the \<open>service_account_email\<close> of compute-engine
  credentials, when it is a non-empty string. Reading the attribute of an object that
  lacks it raises \<open>AttributeError\<close>.
\<close>

definition signing_identity :: "credentials \<Rightarrow> world \<Rightarrow> (exc + string) \<times> world" where
  "signing_identity creds w =
     (let undetermined =
            (Inl (HTTPException 500 detail_no_signing_identity),
             log_msg ''ERROR'' ''Could not determine service account email for signing the URL.'' w)
      in if is_compute_engine creds then
           (case service_account_email creds of
              Absent \<Rightarrow> (Inl (PyError ''AttributeError'' ''service_account_email''), w)
            | NoneVal \<Rightarrow> undetermined
            | StrVal s \<Rightarrow> if s \<noteq> [] then (Inr s, w) else undetermined)
         else undetermined)"

text \<open>
  Lines 86 to 107. \<open>gcs_service.client\<close> raises \<open>RuntimeError\<close> when the client was not
  initialised (app/core/gcs_client.py); \<open>gcs_service.bucket_name\<close> reads
  \<open>settings.GCS_BUCKET_NAME\<close>; \<open>blob.exists()\<close> and \<open>blob.generate_signed_url(...)\<close>
  are the two calls to the storage service.
\<close>

definition check_and_sign ::
  "cloud \<Rightarrow> string \<Rightarrow> int \<Rightarrow> credentials \<Rightarrow> string \<Rightarrow> world \<Rightarrow> (exc + string) \<times> world" where
  "check_and_sign cl filename expires_in creds signing_service_account_email w =
     (case storage_client cl of
        None \<Rightarrow>
          (Inl (PyError ''RuntimeError'' ''Google Cloud Storage client is not initialized.''),
           log_msg ''ERROR'' ''Attempted to access uninitialized GCS client.'' w)
      | Some client \<Rightarrow>
          (let bucket = GCS_BUCKET_NAME (app_settings w);
               w1 = called (OpExists bucket filename) w
           in case blob_exists client bucket filename of
                Inl x \<Rightarrow> (Inl (raised x), w1)
              | Inr False \<Rightarrow>
                  (Inl (HTTPException 404 detail_file_not_found),
                   log_msg ''WARNING''
                     (''File not found in GCS for signed URL generation: '' @ [CHR 0x27] @
                      filename @ [CHR 0x27] @ ''.'') w1)
              | Inr True \<Rightarrow>
                  (let sr = \<lparr>sr_blob = filename, sr_version = ''v4'',
                             sr_expiration = expires_in, sr_method = ''GET'',
                             sr_service_account_email = signing_service_account_email,
                             sr_access_token = token creds,
                             sr_response_disposition = ''attachment; filename='' @ filename\<rparr>;
                       w2 = called (OpSign bucket sr) w1
                   in case blob_generate_signed_url client bucket sr of
                        Inl x \<Rightarrow> (Inl (raised x), w2)
                      | Inr url \<Rightarrow>
                          (Inr url,
                           log_msg ''INFO''
                             (''Successfully generated signed URL for filename: '' @ [CHR 0x27] @
                              filename @ [CHR 0x27] @ ''.'') w2))))"

text \<open>The body of the \<open>try\<close> statement, an exception ending it at the point it is raised.\<close>

definition try_body :: "cloud \<Rightarrow> string \<Rightarrow> int \<Rightarrow> world \<Rightarrow> (exc + string) \<times> world" where
  "try_body cl filename expires_in w =
     (case acquire_credentials cl w of
        (Inl e, w1) \<Rightarrow> (Inl e, w1)
      | (Inr creds, w1) \<Rightarrow>
          (case signing_identity creds w1 of
             (Inl e, w2) \<Rightarrow> (Inl e, w2)
           | (Inr email, w2) \<Rightarrow> check_and_sign cl filename expires_in creds email w2))"

text \<open>
  \<open>generate_signed_url\<close>: the \<open>try\<close> body under its two \<open>except\<close> clauses. The first
  catches \<open>DefaultCredentialsError\<close>; the second catches every other exception, logs it,
  re-raises an \<open>HTTPException\<close> as it is and replaces anything else by a fixed 500.
\<close>

definition generate_signed_url :: "cloud \<Rightarrow> string \<Rightarrow> int \<Rightarrow> world \<Rightarrow> (exc + json) \<times> world" where
  "generate_signed_url cl filename expires_in w0 =
     (let w1 = log_msg ''INFO''
                 (''Received request to generate signed URL for filename: '' @ [CHR 0x27] @
                  filename @ [CHR 0x27] @ '' (expiry: '' @ show_int expires_in @ ''s).'') w0
      in case try_body cl filename expires_in w1 of
           (Inr url, w2) \<Rightarrow> (Inr (JObj [(''signed_url'', JStr url)]), w2)
         | (Inl (DefaultCredentialsError m), w2) \<Rightarrow>
             (Inl (HTTPException 500 detail_authentication_failed),
              log_exc ''ERROR''
                (''Google Cloud authentication failed for '' @ [CHR 0x27] @ filename @
                 [CHR 0x27] @ '': '' @ m) (DefaultCredentialsError m) w2)
         | (Inl e, w2) \<Rightarrow>
             (let w3 = log_exc ''ERROR''
                         (''An unexpected error occurred during signed URL generation for '' @
                          [CHR 0x27] @ filename @ [CHR 0x27] @ '': '' @ exc_str e) e w2
              in case e of
                   HTTPException s d \<Rightarrow> (Inl e, w3)
                 | _ \<Rightarrow> (Inl (HTTPException 500 detail_internal_error), w3)))"

text \<open>
  The route \<open>GET <prefix>/url/\<close>. The framework validates the query parameters declared
  with \<open>Query(...)\<close> before it calls the handler: \<open>filename\<close> is required, \<open>expires_in\<close>
  is an integer with default 300, \<open>ge=20\<close> and \<open>le=3600\<close>. A request that fails the
  validation is answered with status 422 and the list of the failed parameters; the
  handler is not called.
\<close>

definition validation_error :: "string \<Rightarrow> string \<Rightarrow> json" where
  "validation_error kind param =
     JObj [(''type'', JStr kind), (''loc'', JArr [JStr ''query'', JStr param])]"

definition validate_query :: "request \<Rightarrow> json list + string \<times> int" where
  "validate_query req =
     (let filename_errors =
            (case q_filename req of None \<Rightarrow> [validation_error ''missing'' ''filename''] | Some f \<Rightarrow> []);
          expires_in_errors =
            (case q_expires_in req of
               QMissing \<Rightarrow> []
             | QInvalid s \<Rightarrow> [validation_error ''int_parsing'' ''expires_in'']
             | QInt v \<Rightarrow>
                 if v < 20 then [validation_error ''greater_than_equal'' ''expires_in'']
                 else if 3600 < v then [validation_error ''less_than_equal'' ''expires_in'']
                 else []);
          expires_in = (case q_expires_in req of QInt v \<Rightarrow> v | _ \<Rightarrow> 300)
      in case (q_filename req, filename_errors @ expires_in_errors) of
           (Some filename, []) \<Rightarrow> Inr (filename, expires_in)
         | (_, errors) \<Rightarrow> Inl errors)"

definition url_endpoint :: "cloud \<Rightarrow> handler" where
  "url_endpoint cl req w =
     (case validate_query req of
        Inl errors \<Rightarrow> (Inr (JSONResponse 422 (JObj [(''detail'', JArr errors)])), w)
      | Inr (filename, expires_in) \<Rightarrow>
          (case generate_signed_url cl filename expires_in w of
             (Inl e, w1) \<Rightarrow> (Inl e, w1)
           | (Inr content, w1) \<Rightarrow> (Inr (JSONResponse 200 content), w1)))"

section \<open>Error responder and application (app/main.py, app/models/error_model.py)\<close>

text \<open>\<open>ErrorResponse(code, message, details).model_dump()\<close>.\<close>

definition ErrorResponse :: "string \<Rightarrow> string \<Rightarrow> json option \<Rightarrow> json" where
  "ErrorResponse code msg details =
     JObj [(''code'', JStr code), (''message'', JStr msg),
           (''details'', (case details of None \<Rightarrow> JNull | Some d \<Rightarrow> d))]"

definition http_exception_handler :: "request \<Rightarrow> nat \<Rightarrow> string \<Rightarrow> world \<Rightarrow> response \<times> world" where
  "http_exception_handler req status detail w =
     (let w1 = log_msg ''ERROR''
                 (''HTTPException caught for path '' @ [CHR 0x27] @ path req @ [CHR 0x27] @
                  '': Status '' @ show_nat status @ '', Detail: '' @ detail) w
      in (JSONResponse status (JObj [(''code'', JStr ''HTTP_ERROR''), (''message'', JStr detail)]),
          w1))"

definition generic_exception_handler :: "request \<Rightarrow> exc \<Rightarrow> world \<Rightarrow> response \<times> world" where
  "generic_exception_handler req e w =
     (let w1 = log_exc ''ERROR''
                 (''Unhandled exception caught for path '' @ [CHR 0x27] @ path req @ [CHR 0x27] @
                  '': '' @ exc_str e) e w
      in (JSONResponse 500
            (ErrorResponse ''UNEXPECTED_ERROR''
               ''An unexpected server error occurred. Please try again later.''
               (Some (JObj [(''error_type'', JStr (exc_type_name e)),
                            (''message'', JStr (exc_str e)),
                            (''request_path'', JStr (path req))]))),
          w1))"

text \<open>
  The middleware stack the framework builds for \<open>app\<close>: the handler registered for
  \<open>Exception\<close> sits outermost, \<open>TraceMiddleware\<close> (added with \<open>add_middleware\<close>) inside
  it, and the handler registered for \<open>HTTPException\<close> innermost, around the routes. So
  an \<open>HTTPException\<close> of a route reaches \<open>dispatch\<close> as a response, any other exception
  passes through \<open>dispatch\<close> as an exception.
\<close>

definition exception_middleware :: "handler \<Rightarrow> handler" where
  "exception_middleware route req w =
     (case route req w of
        (Inl (HTTPException s d), w1) \<Rightarrow>
          (let (r, w2) = http_exception_handler req s d w1 in (Inr r, w2))
      | (Inl e, w1) \<Rightarrow> (Inl e, w1)
      | (Inr r, w1) \<Rightarrow> (Inr r, w1))"

definition server_error_middleware :: "handler \<Rightarrow> request \<Rightarrow> world \<Rightarrow> response \<times> world" where
  "server_error_middleware inner req w =
     (case inner req w of
        (Inl e, w1) \<Rightarrow> generic_exception_handler req e w1
      | (Inr r, w1) \<Rightarrow> (r, w1))"

definition app :: "entropy \<Rightarrow> clock \<Rightarrow> handler \<Rightarrow> request \<Rightarrow> world \<Rightarrow> response \<times> world" where
  "app rnd clk route req w =
     server_error_middleware
       (\<lambda>req' w'. dispatch rnd clk req' (exception_middleware route) w') req w"

section \<open>Predicates and sample inputs used by the theorems\<close>




definition ex_entropy :: entropy where
  "ex_entropy =
     \<lparr>uuid4 = ''3f2b8c1e-9a4d-4e6f-8b7a-1c2d3e4f5a6b'',
      urandom8 = [CHR 0x01, CHR 0x23, CHR 0x45, CHR 0x67, CHR 0x89, CHR 0xAB, CHR 0xCD, CHR 0xEF]\<rparr>"

definition ex_clock :: clock where
  "ex_clock = \<lparr>perf_start = 1000000000, perf_end = 1012345678\<rparr>"

definition ex_request :: request where
  "ex_request =
     \<lparr>http_method = ''GET'', path = ''/v1/url/'', base_url = ''http://testserver/'',
      q_filename = Some ''report.pdf'', q_expires_in = QInt 300,
      state_trace_id = None, state_span_id = None\<rparr>"

definition ex_settings :: settings where
  "ex_settings =
     \<lparr>PROJECT_NAME = ''Abacus Signed URL Generator'', ENVIRONMENT = ''local'',
      LOG_LEVEL = ''DEBUG'', API_V1_STR = ''/v1'', DEBUG = True,
      GCS_BUCKET_NAME = ''abacus-claims'', GCP_PROJECT = Some ''grpit-cds-sandpit-dev''\<rparr>"

definition ex_world :: world where
  "ex_world =
     \<lparr>ctx = \<lparr>trace_id_var = None, span_id_var = None\<rparr>, logs = [],
      app_settings = ex_settings, cloud_calls = []\<rparr>"

text \<open>A downstream chain that raises, and one whose route raises a 404.\<close>

definition raising_route :: handler where
  "raising_route req w = (Inl (PyError ''RuntimeError'' ''boom''), w)"



definition http_error_body :: "string \<Rightarrow> json" where
  "http_error_body d = JObj [(''code'', JStr ''HTTP_ERROR''), (''message'', JStr d)]"

text \<open>
  The credentials the handler goes on with after lines 37 to 67: the acquired ones when
  valid, the refreshed ones when the refresh returned valid credentials.
\<close>

definition credentials_in_use :: "cloud \<Rightarrow> credentials option" where
  "credentials_in_use cl =
     (case adc_default cl of
        Inl x \<Rightarrow> None
      | Inr (creds, project) \<Rightarrow>
          if valid creds then Some creds
          else (case refresh cl creds of
                  Inl x \<Rightarrow> None
                | Inr creds' \<Rightarrow> if valid creds' then Some creds' else None))"

text \<open>The SDK calls of one request: what the call appended to \<open>cloud_calls\<close>.\<close>

definition calls_of :: "world \<Rightarrow> world \<Rightarrow> cloud_op list" where
  "calls_of before after = drop (length (cloud_calls before)) (cloud_calls after)"

definition is_sign :: "cloud_op \<Rightarrow> bool" where
  "is_sign op = (case op of OpSign b sr \<Rightarrow> True | _ \<Rightarrow> False)"

definition is_exists :: "cloud_op \<Rightarrow> bool" where
  "is_exists op = (case op of OpExists b n \<Rightarrow> True | _ \<Rightarrow> False)"

definition ex_credentials :: credentials where
  "ex_credentials =
     \<lparr>cred_type = ''google.auth.compute_engine.credentials.Credentials'',
      is_compute_engine = True,
      service_account_email = StrVal ''signer@cloud-run-project.iam.gserviceaccount.com'',
      token = Some ''ya29.sample-token'', valid = True\<rparr>"

text \<open>A bucket that holds \<open>report.pdf\<close> and nothing else.\<close>

definition ex_client :: gcs_client where
  "ex_client =
     \<lparr>blob_exists = (\<lambda>bucket name. Inr (name = ''report.pdf'')),
      blob_generate_signed_url =
        (\<lambda>bucket sr. Inr (''https://storage.googleapis.com/'' @ bucket @ ''/'' @ sr_blob sr))\<rparr>"

definition ex_cloud :: cloud where
  "ex_cloud =
     \<lparr>adc_default = Inr (ex_credentials, Some ''cloud-run-project''),
      refresh = (\<lambda>c. Inr c), storage_client = Some ex_client\<rparr>"

text \<open>Credentials that are not valid and that a refresh leaves not valid.\<close>

definition stale_cloud :: cloud where
  "stale_cloud =
     ex_cloud\<lparr>adc_default := Inr (ex_credentials\<lparr>valid := False\<rparr>, Some ''cloud-run-project'')\<rparr>"




text \<open>
  The claimed timestamp: the creation time of the record in UTC, in ISO-8601 form with
  milliseconds and the suffix \<open>Z\<close>.
\<close>

definition utc_timestamp :: "int \<Rightarrow> exc + string" where
  "utc_timestamp t =
     (case fromtimestamp 0 t of
        Inl e \<Rightarrow> Inl e
      | Inr dt \<Rightarrow> Inr (isoformat_milliseconds dt @ ''Z''))"

definition timestamp_field :: "exc + json \<Rightarrow> exc + string" where
  "timestamp_field formatted =
     (case formatted of
        Inl e \<Rightarrow> Inl e
      | Inr (JObj members) \<Rightarrow>
          (case map_of members ''timestamp'' of
             Some (JStr s) \<Rightarrow> Inr s
           | _ \<Rightarrow> Inl (PyError ''KeyError'' ''timestamp''))
      | Inr _ \<Rightarrow> Inl (PyError ''KeyError'' ''timestamp''))"

text \<open>A record created at 2023-11-14 22:13:20.123456 UTC.\<close>

definition ex_record :: LogRecord where
  "ex_record =
     \<lparr>levelname = ''INFO'', message = ''Request started: GET /v1/url/'', exc_info = None,
      name = ''root'', created = 1700000000123456,
      pathname = ''/app/app/middleware/trace_middleware.py'', lineno = 64,
      funcName = ''dispatch'', traceback = [], stack_info = None\<rparr>"

section \<open>Decimal renderings\<close>


declare show_nat.simps [simp del]













section \<open>The trace middleware\<close>

lemma dispatch_unfold:
  "dispatch rnd clk req call_next w =
     (case call_next (request_seen rnd req) (world_seen rnd req w) of
        (Inl e, w5) \<Rightarrow>
          (Inl e, log_exc ''ERROR''
                    (''Exception during request processing: '' @ exc_str e @ '' ('' @
                     fmt_4f (perf_end clk - perf_start clk) @ ''s)'') e w5)
      | (Inr r0, w5) \<Rightarrow>
          (let r3 = set_header ''X-Span-ID'' (hexlify (urandom8 rnd))
                      (set_header ''X-Trace-ID'' (uuid4 rnd)
                         (set_header ''X-Process-Time'' (fmt_4f (perf_end clk - perf_start clk)) r0))
           in (Inr r3,
               span_id_var_reset (span_id_var (ctx w))
                 (trace_id_var_reset (trace_id_var (ctx w))
                    (log_msg ''INFO''
                       (''Request finished: Status '' @ show_nat (status_code r3) @ '' ('' @
                        fmt_4f (perf_end clk - perf_start clk) @ ''s)'') w5)))))"
proof -
  obtain out w5 where c: "call_next (request_seen rnd req) (world_seen rnd req w) = (out, w5)"
    by (cases "call_next (request_seen rnd req) (world_seen rnd req w)") 
  note c' = c[unfolded request_seen_def world_seen_def log_msg_def, simplified]
  show ?thesis
    unfolding c
    by (cases out) (simp_all add: dispatch_def trace_id_var_set_def span_id_var_set_def Let_def log_msg_def c')
qed



lemma dispatch_return_ctx:
  assumes "call_next (request_seen rnd req) (world_seen rnd req w) = (Inr r0, w5)"
  shows "ctx (snd (dispatch rnd clk req call_next w)) =
           (ctx w5)\<lparr>trace_id_var := trace_id_var (ctx w), span_id_var := span_id_var (ctx w)\<rparr>"
  using assms
  by (simp add: dispatch_unfold Let_def log_msg_def trace_id_var_reset_def span_id_var_reset_def)

text \<open>
  C1 (the ambient identifiers are reset on every exit path of \<open>dispatch\<close>). When
  \<open>call_next\<close> raises, \<open>dispatch\<close> re-raises before it reaches the two \<open>reset\<close> calls:
  the request below starts with both variables unset and ends with the request's own
  trace id and span id still installed.
\<close>

theorem C1_raising_request_keeps_trace_context:
  "fst (dispatch ex_entropy ex_clock ex_request raising_route ex_world) =
     Inl (PyError ''RuntimeError'' ''boom'') \<and>
   ctx ex_world = \<lparr>trace_id_var = None, span_id_var = None\<rparr> \<and>
   ctx (snd (dispatch ex_entropy ex_clock ex_request raising_route ex_world)) =
     \<lparr>trace_id_var = Some ''3f2b8c1e-9a4d-4e6f-8b7a-1c2d3e4f5a6b'',
      span_id_var = Some ''0123456789abcdef''\<rparr>"
  by (simp add: dispatch_unfold raising_route_def log_exc_def world_seen_def log_msg_def
      ex_world_def ex_entropy_def hexlify_def hexdigit_def)







section \<open>The signed-URL handler\<close>

lemma acquire_credentials_cases:
  "acquire_credentials cl w = (out, w') \<Longrightarrow>
     (case out of
        Inr c \<Rightarrow> credentials_in_use cl = Some c
      | Inl e \<Rightarrow> credentials_in_use cl = None \<and>
                 (e = HTTPException 500 detail_invalid_credentials \<or> (\<exists>x. e = raised x)))"
  by (auto simp: acquire_credentials_def credentials_in_use_def Let_def
      split: sum.splits prod.splits if_splits)

lemma acquire_credentials_settings:
  "app_settings (snd (acquire_credentials cl w)) =
     (case adc_default cl of
        Inl x \<Rightarrow> app_settings w
      | Inr (c, p) \<Rightarrow> (app_settings w)\<lparr>GCP_PROJECT := p\<rparr>)"
  by (auto simp: acquire_credentials_def Let_def log_msg_def called_def
      split: sum.splits prod.splits if_splits)

lemma acquire_credentials_calls:
  "cloud_calls (snd (acquire_credentials cl w)) =
     cloud_calls w @ OpDefault #
       (case adc_default cl of
          Inl x \<Rightarrow> []
        | Inr (c, p) \<Rightarrow> if valid c then [] else [OpRefresh])"
  by (auto simp: acquire_credentials_def Let_def log_msg_def called_def
      split: sum.splits prod.splits if_splits)

lemma signing_identity_world:
  "app_settings (snd (signing_identity c w)) = app_settings w"
  "cloud_calls (snd (signing_identity c w)) = cloud_calls w"
  by (auto simp: signing_identity_def Let_def log_msg_def split: attr.splits)


lemma check_and_sign_settings:
  "app_settings (snd (check_and_sign cl f n c e w)) = app_settings w"
  by (auto simp: check_and_sign_def Let_def log_msg_def called_def
      split: option.splits sum.splits bool.splits)

lemma check_and_sign_calls:
  "\<exists>rest. cloud_calls (snd (check_and_sign cl f n c e w)) = cloud_calls w @ rest \<and>
          count_list rest OpRefresh = 0 \<and> count_list rest OpDefault = 0"
  by (auto simp: check_and_sign_def Let_def log_msg_def called_def
      split: option.splits sum.splits bool.splits)

lemma check_and_sign_absent:
  assumes "storage_client cl = Some client"
      and "blob_exists client (GCS_BUCKET_NAME (app_settings w)) f = Inr False"
  shows "fst (check_and_sign cl f n c e w) = Inl (HTTPException 404 detail_file_not_found)"
    and "cloud_calls (snd (check_and_sign cl f n c e w)) =
           cloud_calls w @ [OpExists (GCS_BUCKET_NAME (app_settings w)) f]"
  using assms by (simp_all add: check_and_sign_def Let_def log_msg_def called_def)

lemma try_body_settings:
  "app_settings (snd (try_body cl f n w)) =
     (case adc_default cl of
        Inl x \<Rightarrow> app_settings w
      | Inr (c, p) \<Rightarrow> (app_settings w)\<lparr>GCP_PROJECT := p\<rparr>)"
proof -
  obtain o1 w1 where a: "acquire_credentials cl w = (o1, w1)"
    by (cases "acquire_credentials cl w")
  have s1: "app_settings w1 =
     (case adc_default cl of
        Inl x \<Rightarrow> app_settings w
      | Inr (c, p) \<Rightarrow> (app_settings w)\<lparr>GCP_PROJECT := p\<rparr>)"
    using acquire_credentials_settings[of cl w] a by simp
  show ?thesis
  proof (cases o1)
    case (Inl e)
    then show ?thesis using a s1 by (simp add: try_body_def)
  next
    case (Inr c)
    obtain o2 w2 where b: "signing_identity c w1 = (o2, w2)"
      by (cases "signing_identity c w1")
    have s2: "app_settings w2 = app_settings w1"
      using signing_identity_world(1)[of c w1] b by simp
    show ?thesis
      using a b Inr s1 s2 by (cases o2) (simp_all add: try_body_def check_and_sign_settings)
  qed
qed

lemma generate_signed_url_settings:
  "app_settings (snd (generate_signed_url cl f n w)) =
     (case adc_default cl of
        Inl x \<Rightarrow> app_settings w
      | Inr (c, p) \<Rightarrow> (app_settings w)\<lparr>GCP_PROJECT := p\<rparr>)"
proof -
  define w1 where "w1 = log_msg ''INFO''
                 (''Received request to generate signed URL for filename: '' @ [CHR 0x27] @
                  f @ [CHR 0x27] @ '' (expiry: '' @ show_int n @ ''s).'') w"
  have s: "app_settings w1 = app_settings w" by (simp add: w1_def log_msg_def)
  obtain o2 w2 where t: "try_body cl f n w1 = (o2, w2)" by (cases "try_body cl f n w1")
  have "app_settings w2 =
     (case adc_default cl of
        Inl x \<Rightarrow> app_settings w
      | Inr (c, p) \<Rightarrow> (app_settings w)\<lparr>GCP_PROJECT := p\<rparr>)"
    using try_body_settings[of cl f n w1] t s by (simp split: sum.splits prod.splits)
  moreover have "app_settings (snd (generate_signed_url cl f n w)) = app_settings w2"
    unfolding generate_signed_url_def Let_def w1_def[symmetric] t
    by (simp add: log_exc_def split: sum.splits exc.splits)
  ultimately show ?thesis by simp
qed




lemma generate_signed_url_unfold:
  "generate_signed_url cl f n w =
     (case try_body cl f n
             (log_msg ''INFO''
                (''Received request to generate signed URL for filename: '' @ [CHR 0x27] @
                 f @ [CHR 0x27] @ '' (expiry: '' @ show_int n @ ''s).'') w) of
        (Inr url, w2) \<Rightarrow> (Inr (JObj [(''signed_url'', JStr url)]), w2)
      | (Inl (DefaultCredentialsError m), w2) \<Rightarrow>
          (Inl (HTTPException 500 detail_authentication_failed),
           log_exc ''ERROR''
             (''Google Cloud authentication failed for '' @ [CHR 0x27] @ f @
              [CHR 0x27] @ '': '' @ m) (DefaultCredentialsError m) w2)
      | (Inl (HTTPException s d), w2) \<Rightarrow>
          (Inl (HTTPException s d),
           log_exc ''ERROR''
             (''An unexpected error occurred during signed URL generation for '' @
              [CHR 0x27] @ f @ [CHR 0x27] @ '': '' @ exc_str (HTTPException s d))
             (HTTPException s d) w2)
      | (Inl (PyError t m), w2) \<Rightarrow>
          (Inl (HTTPException 500 detail_internal_error),
           log_exc ''ERROR''
             (''An unexpected error occurred during signed URL generation for '' @
              [CHR 0x27] @ f @ [CHR 0x27] @ '': '' @ exc_str (PyError t m))
             (PyError t m) w2))"
  unfolding generate_signed_url_def Let_def
  by (simp split: prod.splits sum.splits exc.splits)


lemma generate_signed_url_calls:
  "cloud_calls (snd (generate_signed_url cl f n w)) =
     cloud_calls (snd (try_body cl f n
             (log_msg ''INFO''
                (''Received request to generate signed URL for filename: '' @ [CHR 0x27] @
                 f @ [CHR 0x27] @ '' (expiry: '' @ show_int n @ ''s).'') w)))"
  unfolding generate_signed_url_unfold
  by (simp add: log_exc_def split: prod.splits sum.splits exc.splits)

lemma try_body_calls:
  "\<exists>rest. cloud_calls (snd (try_body cl f n w)) =
            cloud_calls w @ OpDefault #
              (case adc_default cl of
                 Inl x \<Rightarrow> []
               | Inr (c, p) \<Rightarrow> if valid c then [] else [OpRefresh]) @ rest \<and>
          count_list rest OpRefresh = 0 \<and> count_list rest OpDefault = 0 \<and>
          (credentials_in_use cl = None \<longrightarrow> rest = [])"
proof -
  obtain o1 w1 where a: "acquire_credentials cl w = (o1, w1)"
    by (cases "acquire_credentials cl w")
  have c1: "cloud_calls w1 =
     cloud_calls w @ OpDefault #
       (case adc_default cl of
          Inl x \<Rightarrow> []
        | Inr (c, p) \<Rightarrow> if valid c then [] else [OpRefresh])"
    using acquire_credentials_calls[of cl w] a by simp
  show ?thesis
  proof (cases o1)
    case (Inl e)
    then show ?thesis using a c1 by (simp add: try_body_def)
  next
    case (Inr c)
    with acquire_credentials_cases[OF a] have u: "credentials_in_use cl = Some c" by simp
    obtain o2 w2 where b: "signing_identity c w1 = (o2, w2)"
      by (cases "signing_identity c w1")
    have c2: "cloud_calls w2 = cloud_calls w1"
      using signing_identity_world(2)[of c w1] b by simp
    show ?thesis
    proof (cases o2)
      case (Inl e)
      then show ?thesis using a b Inr c1 c2 by (simp add: try_body_def)
    next
      case (Inr email)
      from check_and_sign_calls[of cl f n c email w2] obtain rest where
        r: "cloud_calls (snd (check_and_sign cl f n c email w2)) = cloud_calls w2 @ rest"
          "count_list rest OpRefresh = 0" "count_list rest OpDefault = 0"
        by blast
      have "try_body cl f n w = check_and_sign cl f n c email w2"
        using a b Inr \<open>o1 = Inr c\<close> by (simp add: try_body_def)
      then show ?thesis using r c1 c2 u by simp
    qed
  qed
qed

lemma generate_signed_url_no_credentials:
  assumes "credentials_in_use cl = None"
  shows "\<exists>d. fst (generate_signed_url cl f n w) = Inl (HTTPException 500 d)"
proof -
  define w1 where "w1 = log_msg ''INFO''
                (''Received request to generate signed URL for filename: '' @ [CHR 0x27] @
                 f @ [CHR 0x27] @ '' (expiry: '' @ show_int n @ ''s).'') w"
  obtain o1 w2 where a: "acquire_credentials cl w1 = (o1, w2)"
    by (cases "acquire_credentials cl w1")
  from acquire_credentials_cases[OF a] assms obtain e where
    e: "o1 = Inl e" "e = HTTPException 500 detail_invalid_credentials \<or> (\<exists>x. e = raised x)"
    by (cases o1) auto
  have t: "try_body cl f n w1 = (Inl e, w2)" using a e by (simp add: try_body_def)
  from e(2) show ?thesis
  proof
    assume "e = HTTPException 500 detail_invalid_credentials"
    then show ?thesis
      unfolding generate_signed_url_unfold w1_def[symmetric] t by simp
  next
    assume "\<exists>x. e = raised x"
    then obtain x where "e = raised x" by blast
    then show ?thesis
      unfolding generate_signed_url_unfold w1_def[symmetric] t by (cases x) simp_all
  qed
qed

lemma generate_signed_url_still_invalid:
  assumes "adc_default cl = Inr (c, p)" and "\<not> valid c"
      and "refresh cl c = Inr c'" and "\<not> valid c'"
  shows "fst (generate_signed_url cl f n w) = Inl (HTTPException 500 detail_invalid_credentials)"
proof -
  define w1 where "w1 = log_msg ''INFO''
                (''Received request to generate signed URL for filename: '' @ [CHR 0x27] @
                 f @ [CHR 0x27] @ '' (expiry: '' @ show_int n @ ''s).'') w"
  have "fst (acquire_credentials cl w1) = Inl (HTTPException 500 detail_invalid_credentials)"
    using assms by (simp add: acquire_credentials_def Let_def)
  then obtain w2 where
    "acquire_credentials cl w1 = (Inl (HTTPException 500 detail_invalid_credentials), w2)"
    by (cases "acquire_credentials cl w1") simp
  then have t: "try_body cl f n w1 = (Inl (HTTPException 500 detail_invalid_credentials), w2)"
    by (simp add: try_body_def)
  show ?thesis
    unfolding generate_signed_url_unfold w1_def[symmetric] t by simp
qed

lemma cloud_calls_log_msg: "cloud_calls (log_msg l m w) = cloud_calls w"
  by (simp add: log_msg_def)

lemma generate_signed_url_calls_shape:
  "\<exists>rest. calls_of w (snd (generate_signed_url cl f n w)) =
            OpDefault #
              (case adc_default cl of
                 Inl x \<Rightarrow> []
               | Inr (c, p) \<Rightarrow> if valid c then [] else [OpRefresh]) @ rest \<and>
          count_list rest OpRefresh = 0 \<and> count_list rest OpDefault = 0 \<and>
          (credentials_in_use cl = None \<longrightarrow> rest = [])"
proof -
  let ?w1 = "log_msg ''INFO''
                (''Received request to generate signed URL for filename: '' @ [CHR 0x27] @
                 f @ [CHR 0x27] @ '' (expiry: '' @ show_int n @ ''s).'') w"
  let ?R = "case adc_default cl of
                 Inl x \<Rightarrow> []
               | Inr (c, p) \<Rightarrow> if valid c then [] else [OpRefresh]"
  obtain rest where
    r1: "cloud_calls (snd (try_body cl f n ?w1)) = cloud_calls ?w1 @ OpDefault # ?R @ rest"
    and r2: "count_list rest OpRefresh = 0"
    and r3: "count_list rest OpDefault = 0"
    and r4: "credentials_in_use cl = None \<longrightarrow> rest = []"
    using try_body_calls[of cl f n ?w1] by (elim exE conjE)
  have "cloud_calls (snd (generate_signed_url cl f n w)) = cloud_calls w @ OpDefault # ?R @ rest"
    by (simp only: generate_signed_url_calls r1 cloud_calls_log_msg)
  then have "calls_of w (snd (generate_signed_url cl f n w)) = OpDefault # ?R @ rest"
    by (simp only: calls_of_def append_eq_conv_conj drop_append length_append) simp
  with r2 r3 r4 show ?thesis
    by (intro exI[of _ rest] conjI)
qed

text \<open>
  C6: when the credentials acquired by \<open>google.auth.default\<close> are not valid, the
  handler calls \<open>credentials.refresh\<close> exactly once. When no valid credentials come
  out of it (the refresh raised, or returned credentials that are still not valid), the
  handler fails with status 500 and its SDK calls are the acquisition and that one
  refresh: no existence check, no signing, no second refresh. When the refresh returned
  and the credentials are still not valid, the error is the invalid-credentials one.
\<close>

theorem C6_single_refresh_then_500:
  assumes "adc_default cl = Inr (c, p)" and "\<not> valid c"
  shows "count_list (calls_of w (snd (generate_signed_url cl f n w))) OpRefresh = 1 \<and>
         (credentials_in_use cl = None \<longrightarrow>
            (\<exists>d. fst (generate_signed_url cl f n w) = Inl (HTTPException 500 d)) \<and>
            calls_of w (snd (generate_signed_url cl f n w)) = [OpDefault, OpRefresh]) \<and>
         (\<forall>c'. refresh cl c = Inr c' \<and> \<not> valid c' \<longrightarrow>
            credentials_in_use cl = None \<and>
            fst (generate_signed_url cl f n w) =
              Inl (HTTPException 500 detail_invalid_credentials))"
proof -
  obtain rest where
    r1: "calls_of w (snd (generate_signed_url cl f n w)) =
            OpDefault #
              (case adc_default cl of
                 Inl x \<Rightarrow> []
               | Inr (c, p) \<Rightarrow> if valid c then [] else [OpRefresh]) @ rest"
    and r2: "count_list rest OpRefresh = 0"
    and r4: "credentials_in_use cl = None \<longrightarrow> rest = []"
    using generate_signed_url_calls_shape[of w cl f n] by (elim exE conjE)
  have r1': "calls_of w (snd (generate_signed_url cl f n w)) = OpDefault # OpRefresh # rest"
    using r1 assms by simp
  have one: "count_list (calls_of w (snd (generate_signed_url cl f n w))) OpRefresh = 1"
    using r2 by (simp add: r1')
  have two: "credentials_in_use cl = None \<longrightarrow>
            (\<exists>d. fst (generate_signed_url cl f n w) = Inl (HTTPException 500 d)) \<and>
            calls_of w (snd (generate_signed_url cl f n w)) = [OpDefault, OpRefresh]"
    using r4 generate_signed_url_no_credentials[of cl f n w] by (simp add: r1')
  have three: "\<forall>c'. refresh cl c = Inr c' \<and> \<not> valid c' \<longrightarrow>
            credentials_in_use cl = None \<and>
            fst (generate_signed_url cl f n w) =
              Inl (HTTPException 500 detail_invalid_credentials)"
  proof (intro allI impI, elim conjE)
    fix c' assume h: "refresh cl c = Inr c'" "\<not> valid c'"
    have "credentials_in_use cl = None"
      using assms h by (simp add: credentials_in_use_def)
    moreover note generate_signed_url_still_invalid[OF assms h, of f n w]
    ultimately show "credentials_in_use cl = None \<and>
            fst (generate_signed_url cl f n w) =
              Inl (HTTPException 500 detail_invalid_credentials)" by simp
  qed
  from one two three show ?thesis by (intro conjI)
qed

theorem C6_witness_stale_credentials:
  "adc_default stale_cloud = Inr (ex_credentials\<lparr>valid := False\<rparr>, Some ''cloud-run-project'') \<and>
   \<not> valid (ex_credentials\<lparr>valid := False\<rparr>) \<and>
   refresh stale_cloud (ex_credentials\<lparr>valid := False\<rparr>) = Inr (ex_credentials\<lparr>valid := False\<rparr>) \<and>
   count_list (calls_of ex_world (snd (generate_signed_url stale_cloud ''report.pdf'' 300 ex_world)))
     OpRefresh = 1 \<and>
   calls_of ex_world (snd (generate_signed_url stale_cloud ''report.pdf'' 300 ex_world)) =
     [OpDefault, OpRefresh] \<and>
   fst (generate_signed_url stale_cloud ''report.pdf'' 300 ex_world) =
     Inl (HTTPException 500 detail_invalid_credentials)"
proof -
  have a: "adc_default stale_cloud = Inr (ex_credentials\<lparr>valid := False\<rparr>, Some ''cloud-run-project'')"
    by (simp add: stale_cloud_def)
  have v: "\<not> valid (ex_credentials\<lparr>valid := False\<rparr>)" by simp
  have r: "refresh stale_cloud (ex_credentials\<lparr>valid := False\<rparr>) = Inr (ex_credentials\<lparr>valid := False\<rparr>)"
    by (simp add: stale_cloud_def ex_cloud_def)
  note T = C6_single_refresh_then_500[OF a v, of ex_world "''report.pdf''" 300]
  note one = T[THEN conjunct1]
  note two = T[THEN conjunct2, THEN conjunct1]
  note three = T[THEN conjunct2, THEN conjunct2, THEN spec, THEN mp, OF conjI, OF r v]
  note calls = two[THEN mp, OF three[THEN conjunct1], THEN conjunct2]
  show ?thesis
    by (intro conjI a v r one calls three[THEN conjunct2])

qed

lemma acquire_credentials_in_use:
  assumes "credentials_in_use cl = Some c"
  shows "\<exists>w1. acquire_credentials cl w = (Inr c, w1) \<and>
              GCS_BUCKET_NAME (app_settings w1) = GCS_BUCKET_NAME (app_settings w) \<and>
              cloud_calls w1 =
                cloud_calls w @ OpDefault #
                  (case adc_default cl of
                     Inl x \<Rightarrow> []
                   | Inr (c0, p) \<Rightarrow> if valid c0 then [] else [OpRefresh])"
proof -
  obtain o1 w1 where a: "acquire_credentials cl w = (o1, w1)"
    by (cases "acquire_credentials cl w")
  have o: "o1 = Inr c"
    using acquire_credentials_cases[OF a] assms by (cases o1) simp_all
  have b: "GCS_BUCKET_NAME (app_settings w1) = GCS_BUCKET_NAME (app_settings w)"
    using acquire_credentials_settings[of cl w] a
    by (simp split: sum.splits prod.splits)
  have c: "cloud_calls w1 =
                cloud_calls w @ OpDefault #
                  (case adc_default cl of
                     Inl x \<Rightarrow> []
                   | Inr (c0, p) \<Rightarrow> if valid c0 then [] else [OpRefresh])"
    using acquire_credentials_calls[of cl w] a by simp
  from a o b c show ?thesis by simp
qed

lemma signing_identity_resolved:
  assumes "is_compute_engine c" and "service_account_email c = StrVal e" and "e \<noteq> []"
  shows "signing_identity c w = (Inr e, w)"
  using assms by (simp add: signing_identity_def)

lemma settings_log_msg: "app_settings (log_msg l m w) = app_settings w"
  by (simp add: log_msg_def)

lemma generate_signed_url_absent:
  assumes u: "credentials_in_use cl = Some c"
      and ce: "is_compute_engine c"
      and em: "service_account_email c = StrVal e"
      and ne: "e \<noteq> []"
      and sc: "storage_client cl = Some client"
      and ab: "blob_exists client (GCS_BUCKET_NAME (app_settings w)) f = Inr False"
  shows "fst (generate_signed_url cl f n w) = Inl (HTTPException 404 detail_file_not_found)"
    and "calls_of w (snd (generate_signed_url cl f n w)) =
           OpDefault #
             (case adc_default cl of
                Inl x \<Rightarrow> []
              | Inr (c0, p) \<Rightarrow> if valid c0 then [] else [OpRefresh]) @
             [OpExists (GCS_BUCKET_NAME (app_settings w)) f]"
proof -
  let ?w1 = "log_msg ''INFO''
                (''Received request to generate signed URL for filename: '' @ [CHR 0x27] @
                 f @ [CHR 0x27] @ '' (expiry: '' @ show_int n @ ''s).'') w"
  let ?R = "case adc_default cl of
                Inl x \<Rightarrow> []
              | Inr (c0, p) \<Rightarrow> if valid c0 then [] else [OpRefresh]"
  obtain w2 where a: "acquire_credentials cl ?w1 = (Inr c, w2)"
    and b: "GCS_BUCKET_NAME (app_settings w2) = GCS_BUCKET_NAME (app_settings ?w1)"
    and k: "cloud_calls w2 = cloud_calls ?w1 @ OpDefault # ?R"
    using acquire_credentials_in_use[OF u, of ?w1] by (elim exE conjE)
  have b': "GCS_BUCKET_NAME (app_settings w2) = GCS_BUCKET_NAME (app_settings w)"
    by (simp only: b settings_log_msg)
  have ab': "blob_exists client (GCS_BUCKET_NAME (app_settings w2)) f = Inr False"
    by (simp only: b' ab)
  have t: "try_body cl f n ?w1 = check_and_sign cl f n c e w2"
    by (simp only: try_body_def a signing_identity_resolved[OF ce em ne] prod.case sum.case)
  obtain o3 w3 where cs: "check_and_sign cl f n c e w2 = (o3, w3)"
    by (cases "check_and_sign cl f n c e w2")
  have o3: "o3 = Inl (HTTPException 404 detail_file_not_found)"
    using check_and_sign_absent(1)[OF sc ab', of n c e] cs by simp
  have k3: "cloud_calls w3 = cloud_calls w2 @ [OpExists (GCS_BUCKET_NAME (app_settings w)) f]"
    using check_and_sign_absent(2)[OF sc ab', of n c e] cs by (simp add: b')
  have t': "try_body cl f n ?w1 = (Inl (HTTPException 404 detail_file_not_found), w3)"
    by (simp only: t cs o3)
  show "fst (generate_signed_url cl f n w) = Inl (HTTPException 404 detail_file_not_found)"
    by (simp only: generate_signed_url_unfold t') simp
  have "cloud_calls (snd (generate_signed_url cl f n w)) =
          cloud_calls w @ OpDefault # ?R @ [OpExists (GCS_BUCKET_NAME (app_settings w)) f]"
    by (simp only: generate_signed_url_calls t' snd_conv k3 k cloud_calls_log_msg) simp
  then show "calls_of w (snd (generate_signed_url cl f n w)) =
           OpDefault # ?R @ [OpExists (GCS_BUCKET_NAME (app_settings w)) f]"
    by (simp only: calls_of_def) simp
qed

lemma url_route_http:
  assumes "validate_query req = Inr (f, n)"
      and "fst (generate_signed_url cl f n w) = Inl (HTTPException s d)"
  shows "\<exists>w'. exception_middleware (url_endpoint cl) req w =
               (Inr (JSONResponse s (http_error_body d)), w') \<and>
              cloud_calls w' = cloud_calls (snd (generate_signed_url cl f n w)) \<and>
              app_settings w' = app_settings (snd (generate_signed_url cl f n w))"
proof -
  obtain w1 where g: "generate_signed_url cl f n w = (Inl (HTTPException s d), w1)"
    using assms(2) by (cases "generate_signed_url cl f n w") simp
  have u: "url_endpoint cl req w = (Inl (HTTPException s d), w1)"
    by (simp add: url_endpoint_def assms(1) g)
  show ?thesis
    by (simp add: exception_middleware_def u g http_exception_handler_def Let_def
        http_error_body_def log_msg_def)
qed

lemma url_route_ok:
  assumes "validate_query req = Inr (f, n)"
      and "fst (generate_signed_url cl f n w) = Inr content"
  shows "exception_middleware (url_endpoint cl) req w =
           (Inr (JSONResponse 200 content), snd (generate_signed_url cl f n w))"
proof -
  obtain w1 where g: "generate_signed_url cl f n w = (Inr content, w1)"
    using assms(2) by (cases "generate_signed_url cl f n w") simp
  have u: "url_endpoint cl req w = (Inr (JSONResponse 200 content), w1)"
    by (simp add: url_endpoint_def assms(1) g)
  show ?thesis
    by (simp add: exception_middleware_def u g)
qed

text \<open>
  C7: with credentials in use that are valid, a signing identity that resolves
  (compute-engine credentials with a non-empty service account email) and a storage
  client whose existence check reports the object absent from the configured bucket,
  the handler raises the 404 \<open>File not found\<close> error, which reaches the client as a
  404 response; the existence check is called exactly once and the signing call never.
\<close>

theorem C7_absent_object_404:
  assumes u: "credentials_in_use cl = Some c"
      and ce: "is_compute_engine c"
      and em: "service_account_email c = StrVal e"
      and ne: "e \<noteq> []"
      and sc: "storage_client cl = Some client"
      and ab: "blob_exists client (GCS_BUCKET_NAME (app_settings w)) f = Inr False"
  shows "fst (generate_signed_url cl f n w) = Inl (HTTPException 404 detail_file_not_found) \<and>
         length (filter is_exists (calls_of w (snd (generate_signed_url cl f n w)))) = 1 \<and>
         filter is_sign (calls_of w (snd (generate_signed_url cl f n w))) = [] \<and>
         (validate_query req = Inr (f, n) \<longrightarrow>
            (\<exists>w'. exception_middleware (url_endpoint cl) req w =
                     (Inr (JSONResponse 404 (http_error_body detail_file_not_found)), w')))"
proof -
  note r = generate_signed_url_absent[OF u ce em ne sc ab, of n]
  have ex: "length (filter is_exists (calls_of w (snd (generate_signed_url cl f n w)))) = 1"
    unfolding r(2) by (simp add: is_exists_def split: sum.splits prod.splits)
  have sg: "filter is_sign (calls_of w (snd (generate_signed_url cl f n w))) = []"
    unfolding r(2) by (simp add: is_sign_def split: sum.splits prod.splits)
  have rs: "validate_query req = Inr (f, n) \<longrightarrow>
            (\<exists>w'. exception_middleware (url_endpoint cl) req w =
                     (Inr (JSONResponse 404 (http_error_body detail_file_not_found)), w'))"
  proof
    assume v: "validate_query req = Inr (f, n)"
    from url_route_http[OF v r(1)] obtain w' where
      "exception_middleware (url_endpoint cl) req w =
         (Inr (JSONResponse 404 (http_error_body detail_file_not_found)), w')"
      by (elim exE conjE)
    then show "\<exists>w'. exception_middleware (url_endpoint cl) req w =
                     (Inr (JSONResponse 404 (http_error_body detail_file_not_found)), w')"
      by (rule exI)
  qed
  show ?thesis by (intro conjI r(1) ex sg rs)
qed

theorem C7_witness_missing_object:
  "credentials_in_use ex_cloud = Some ex_credentials \<and>
   is_compute_engine ex_credentials \<and>
   service_account_email ex_credentials =
     StrVal ''signer@cloud-run-project.iam.gserviceaccount.com'' \<and>
   storage_client ex_cloud = Some ex_client \<and>
   blob_exists ex_client (GCS_BUCKET_NAME (app_settings ex_world)) ''missing.txt'' = Inr False \<and>
   fst (generate_signed_url ex_cloud ''missing.txt'' 300 ex_world) =
     Inl (HTTPException 404 detail_file_not_found) \<and>
   length (filter is_exists
     (calls_of ex_world (snd (generate_signed_url ex_cloud ''missing.txt'' 300 ex_world)))) = 1 \<and>
   filter is_sign
     (calls_of ex_world (snd (generate_signed_url ex_cloud ''missing.txt'' 300 ex_world))) = []"
proof -
  have u: "credentials_in_use ex_cloud = Some ex_credentials"
    by (simp add: credentials_in_use_def ex_cloud_def ex_credentials_def)
  have ce: "is_compute_engine ex_credentials" by (simp add: ex_credentials_def)
  have em: "service_account_email ex_credentials =
     StrVal ''signer@cloud-run-project.iam.gserviceaccount.com''"
    by (simp add: ex_credentials_def)
  have ne: "''signer@cloud-run-project.iam.gserviceaccount.com'' \<noteq> []" by simp
  have sc: "storage_client ex_cloud = Some ex_client" by (simp add: ex_cloud_def)
  have ab: "blob_exists ex_client (GCS_BUCKET_NAME (app_settings ex_world)) ''missing.txt'' = Inr False"
    by (simp add: ex_client_def)
  note T = C7_absent_object_404[OF u ce em ne sc ab, of 300 ex_request]
  show ?thesis
    by (intro conjI u ce em sc ab T[THEN conjunct1] T[THEN conjunct2, THEN conjunct1]
        T[THEN conjunct2, THEN conjunct2, THEN conjunct1])
qed

section \<open>The application around the route\<close>

lemma validate_query_request_seen: "validate_query (request_seen rnd req) = validate_query req"
  by (simp add: validate_query_def request_seen_def)

lemma world_seen_frame:
  "cloud_calls (world_seen rnd req w) = cloud_calls w"
  "app_settings (world_seen rnd req w) = app_settings w"
  by (simp_all add: world_seen_def log_msg_def)

lemma app_returned:
  assumes "route (request_seen rnd req) (world_seen rnd req w) = (Inr r0, w1)"
  shows "status_code (fst (app rnd clk route req w)) = status_code r0"
    and "body (fst (app rnd clk route req w)) = body r0"
    and "cloud_calls (snd (app rnd clk route req w)) = cloud_calls w1"
    and "app_settings (snd (app rnd clk route req w)) = app_settings w1"
proof -
  have em: "exception_middleware route (request_seen rnd req) (world_seen rnd req w) = (Inr r0, w1)"
    by (simp add: exception_middleware_def assms)
  show "status_code (fst (app rnd clk route req w)) = status_code r0"
    by (simp add: app_def server_error_middleware_def dispatch_unfold em Let_def set_header_def)
  show "body (fst (app rnd clk route req w)) = body r0"
    by (simp add: app_def server_error_middleware_def dispatch_unfold em Let_def set_header_def)
  show "cloud_calls (snd (app rnd clk route req w)) = cloud_calls w1"
    by (simp add: app_def server_error_middleware_def dispatch_unfold em Let_def
        trace_id_var_reset_def span_id_var_reset_def log_msg_def)
  show "app_settings (snd (app rnd clk route req w)) = app_settings w1"
    by (simp add: app_def server_error_middleware_def dispatch_unfold em Let_def
        trace_id_var_reset_def span_id_var_reset_def log_msg_def)
qed


lemma validate_query_out_of_bounds:
  assumes "q_expires_in req = QInt v" and "v < 20 \<or> 3600 < v"
  shows "\<exists>errors. validate_query req = Inl errors"
  using assms by (cases "q_filename req") (auto simp: validate_query_def Let_def)

lemma validate_query_in_bounds:
  assumes "q_filename req = Some f" and "q_expires_in req = QInt v" and "20 \<le> v" and "v \<le> 3600"
  shows "validate_query req = Inr (f, v)"
  using assms by (simp add: validate_query_def Let_def)

lemma validate_query_default:
  assumes "q_filename req = Some f" and "q_expires_in req = QMissing"
  shows "validate_query req = Inr (f, 300)"
  using assms by (simp add: validate_query_def Let_def)

lemma url_endpoint_rejected:
  assumes "validate_query req = Inl errors"
  shows "url_endpoint cl req w = (Inr (JSONResponse 422 (JObj [(''detail'', JArr errors)])), w)"
  using assms by (simp add: url_endpoint_def)

text \<open>
  C5: a request whose \<open>expires_in\<close> is below 20 or above 3600 is answered with status
  422 and no SDK call is made (the handler is not entered); 20 and 3600, like every
  value between them, pass the validation and reach the handler unchanged; a request
  without \<open>expires_in\<close> reaches it with 300.
\<close>

theorem C5_expires_in_bounds:
  "(q_expires_in req = QInt v \<and> (v < 20 \<or> 3600 < v) \<longrightarrow>
      status_code (fst (app rnd clk (url_endpoint cl) req w)) = 422 \<and>
      cloud_calls (snd (app rnd clk (url_endpoint cl) req w)) = cloud_calls w) \<and>
   (q_filename req = Some f \<and> q_expires_in req = QInt v \<and> 20 \<le> v \<and> v \<le> 3600 \<longrightarrow>
      validate_query req = Inr (f, v) \<and>
      url_endpoint cl req w =
        (case generate_signed_url cl f v w of
           (Inl e, w1) \<Rightarrow> (Inl e, w1)
         | (Inr content, w1) \<Rightarrow> (Inr (JSONResponse 200 content), w1))) \<and>
   (q_filename req = Some f \<and> q_expires_in req = QMissing \<longrightarrow>
      validate_query req = Inr (f, 300))"
proof (intro conjI impI)
  assume h: "q_expires_in req = QInt v \<and> (v < 20 \<or> 3600 < v)"
  then obtain errors where e: "validate_query req = Inl errors"
    using validate_query_out_of_bounds[of req v] by (elim conjE exE) blast
  have u: "url_endpoint cl (request_seen rnd req) (world_seen rnd req w) =
             (Inr (JSONResponse 422 (JObj [(''detail'', JArr errors)])), world_seen rnd req w)"
    by (rule url_endpoint_rejected) (simp only: validate_query_request_seen e)
  show "status_code (fst (app rnd clk (url_endpoint cl) req w)) = 422"
    using app_returned(1)[of "url_endpoint cl" rnd req w _ _ clk, OF u]
    by (simp add: JSONResponse_def)
  show "cloud_calls (snd (app rnd clk (url_endpoint cl) req w)) = cloud_calls w"
    using app_returned(3)[of "url_endpoint cl" rnd req w _ _ clk, OF u]
    by (simp only: world_seen_frame)
next
  assume h: "q_filename req = Some f \<and> q_expires_in req = QInt v \<and> 20 \<le> v \<and> v \<le> 3600"
  then show v: "validate_query req = Inr (f, v)"
    by (elim conjE) (rule validate_query_in_bounds)
  show "url_endpoint cl req w =
        (case generate_signed_url cl f v w of
           (Inl e, w1) \<Rightarrow> (Inl e, w1)
         | (Inr content, w1) \<Rightarrow> (Inr (JSONResponse 200 content), w1))"
    by (simp add: url_endpoint_def v)
next
  assume "q_filename req = Some f \<and> q_expires_in req = QMissing"
  then show "validate_query req = Inr (f, 300)"
    by (elim conjE) (rule validate_query_default)
qed

theorem C5_witness_bounds:
  "status_code (fst (app ex_entropy ex_clock (url_endpoint ex_cloud)
       (ex_request\<lparr>q_expires_in := QInt 19\<rparr>) ex_world)) = 422 \<and>
   cloud_calls (snd (app ex_entropy ex_clock (url_endpoint ex_cloud)
       (ex_request\<lparr>q_expires_in := QInt 19\<rparr>) ex_world)) = cloud_calls ex_world \<and>
   status_code (fst (app ex_entropy ex_clock (url_endpoint ex_cloud)
       (ex_request\<lparr>q_expires_in := QInt 3601\<rparr>) ex_world)) = 422 \<and>
   cloud_calls (snd (app ex_entropy ex_clock (url_endpoint ex_cloud)
       (ex_request\<lparr>q_expires_in := QInt 3601\<rparr>) ex_world)) = cloud_calls ex_world \<and>
   validate_query (ex_request\<lparr>q_expires_in := QInt 20\<rparr>) = Inr (''report.pdf'', 20) \<and>
   validate_query (ex_request\<lparr>q_expires_in := QInt 3600\<rparr>) = Inr (''report.pdf'', 3600) \<and>
   validate_query (ex_request\<lparr>q_expires_in := QMissing\<rparr>) = Inr (''report.pdf'', 300)"
proof -
  have lo: "q_expires_in (ex_request\<lparr>q_expires_in := QInt 19\<rparr>) = QInt 19 \<and>
            ((19::int) < 20 \<or> (3600::int) < 19)" by simp
  have hi: "q_expires_in (ex_request\<lparr>q_expires_in := QInt 3601\<rparr>) = QInt 3601 \<and>
            ((3601::int) < 20 \<or> (3600::int) < 3601)" by simp
  have b20: "q_filename (ex_request\<lparr>q_expires_in := QInt 20\<rparr>) = Some ''report.pdf'' \<and>
             q_expires_in (ex_request\<lparr>q_expires_in := QInt 20\<rparr>) = QInt 20 \<and>
             (20::int) \<le> 20 \<and> (20::int) \<le> 3600" by (simp add: ex_request_def)
  have b3600: "q_filename (ex_request\<lparr>q_expires_in := QInt 3600\<rparr>) = Some ''report.pdf'' \<and>
             q_expires_in (ex_request\<lparr>q_expires_in := QInt 3600\<rparr>) = QInt 3600 \<and>
             (20::int) \<le> 3600 \<and> (3600::int) \<le> 3600" by (simp add: ex_request_def)
  have d: "q_filename (ex_request\<lparr>q_expires_in := QMissing\<rparr>) = Some ''report.pdf'' \<and>
           q_expires_in (ex_request\<lparr>q_expires_in := QMissing\<rparr>) = QMissing"
    by (simp add: ex_request_def)
  note L = C5_expires_in_bounds[where req="ex_request\<lparr>q_expires_in := QInt 19\<rparr>" and v=19
      and rnd=ex_entropy and clk=ex_clock and cl=ex_cloud and w=ex_world,
      THEN conjunct1, THEN mp, OF lo]
  note H = C5_expires_in_bounds[where req="ex_request\<lparr>q_expires_in := QInt 3601\<rparr>" and v=3601
      and rnd=ex_entropy and clk=ex_clock and cl=ex_cloud and w=ex_world,
      THEN conjunct1, THEN mp, OF hi]
  note B20 = C5_expires_in_bounds[where req="ex_request\<lparr>q_expires_in := QInt 20\<rparr>" and v=20
      and f="''report.pdf''" and cl=ex_cloud and w=ex_world,
      THEN conjunct2, THEN conjunct1, THEN mp, OF b20, THEN conjunct1]
  note B3600 = C5_expires_in_bounds[where req="ex_request\<lparr>q_expires_in := QInt 3600\<rparr>"
      and v=3600 and f="''report.pdf''" and cl=ex_cloud and w=ex_world,
      THEN conjunct2, THEN conjunct1, THEN mp, OF b3600, THEN conjunct1]
  note D = C5_expires_in_bounds[where req="ex_request\<lparr>q_expires_in := QMissing\<rparr>"
      and f="''report.pdf''",
      THEN conjunct2, THEN conjunct2, THEN mp, OF d]
  show ?thesis
    by (intro conjI L[THEN conjunct1] L[THEN conjunct2] H[THEN conjunct1] H[THEN conjunct2]
        B20 B3600 D)
qed

text \<open>
  C3, as amended: a call of the handler leaves every field of the settings singleton
  as it was, except \<open>GCP_PROJECT\<close>: when \<open>google.auth.default\<close> returns, the field
  holds the project id that call returned (\<open>None\<close> included); when it raises, the field
  is unchanged too.
\<close>

theorem C3_handler_overwrites_project_id_only:
  "app_settings (snd (generate_signed_url cl f n w)) =
     (case adc_default cl of
        Inl x \<Rightarrow> app_settings w
      | Inr (c, p) \<Rightarrow> (app_settings w)\<lparr>GCP_PROJECT := p\<rparr>) \<and>
   PROJECT_NAME (app_settings (snd (generate_signed_url cl f n w))) = PROJECT_NAME (app_settings w) \<and>
   ENVIRONMENT (app_settings (snd (generate_signed_url cl f n w))) = ENVIRONMENT (app_settings w) \<and>
   LOG_LEVEL (app_settings (snd (generate_signed_url cl f n w))) = LOG_LEVEL (app_settings w) \<and>
   API_V1_STR (app_settings (snd (generate_signed_url cl f n w))) = API_V1_STR (app_settings w) \<and>
   DEBUG (app_settings (snd (generate_signed_url cl f n w))) = DEBUG (app_settings w) \<and>
   GCS_BUCKET_NAME (app_settings (snd (generate_signed_url cl f n w))) =
     GCS_BUCKET_NAME (app_settings w) \<and>
   GCP_PROJECT (app_settings (snd (generate_signed_url cl f n w))) =
     (case adc_default cl of
        Inl x \<Rightarrow> GCP_PROJECT (app_settings w)
      | Inr (c, p) \<Rightarrow> p)"
  unfolding generate_signed_url_settings
  by (simp split: sum.splits prod.splits)

theorem C3_witness_project_id_overwritten:
  "app_settings (snd (generate_signed_url ex_cloud ''report.pdf'' 300 ex_world)) =
     ex_settings\<lparr>GCP_PROJECT := Some ''cloud-run-project''\<rparr>"
  using C3_handler_overwrites_project_id_only[of ex_cloud "''report.pdf''" 300 ex_world,
      THEN conjunct1]
  by (simp add: ex_cloud_def ex_world_def)

text \<open>
  C3 as stated fails: the settings were loaded with the project id of the local profile,
  the SDK reports another project, and after one request the singleton holds that one.
\<close>

theorem C3_counterexample_settings_mutated:
  "GCP_PROJECT (app_settings ex_world) = Some ''grpit-cds-sandpit-dev'' \<and>
   GCP_PROJECT (app_settings (snd (generate_signed_url ex_cloud ''report.pdf'' 300 ex_world))) =
     Some ''cloud-run-project'' \<and>
   app_settings (snd (generate_signed_url ex_cloud ''report.pdf'' 300 ex_world)) \<noteq>
     app_settings ex_world"
proof -
  have a: "GCP_PROJECT (app_settings ex_world) = Some ''grpit-cds-sandpit-dev''"
    by (simp add: ex_world_def ex_settings_def)
  have b: "GCP_PROJECT (app_settings (snd (generate_signed_url ex_cloud ''report.pdf'' 300 ex_world))) =
     Some ''cloud-run-project''"
    by (simp add: generate_signed_url_settings ex_cloud_def)
  have c: "app_settings (snd (generate_signed_url ex_cloud ''report.pdf'' 300 ex_world)) \<noteq>
     app_settings ex_world"
  proof
    assume "app_settings (snd (generate_signed_url ex_cloud ''report.pdf'' 300 ex_world)) =
     app_settings ex_world"
    then have "GCP_PROJECT (app_settings (snd (generate_signed_url ex_cloud ''report.pdf'' 300 ex_world)))
      = GCP_PROJECT (app_settings ex_world)" by (rule arg_cong)
    then show False by (simp only: a b) simp
  qed
  show ?thesis by (intro conjI a b c)
qed









section \<open>Settings resolution\<close>











end
